theory Spec2Isabelle
  imports Main "HOL-Library.Word"
begin

section \<open>Python strings and bytes\<close>

text \<open>
  A Python \<open>str\<close> is modelled as a \<open>string\<close>: a list of code points below 256, which
  is the range that \<open>bytes.decode("iso-8859-1")\<close> produces. \<open>bytes\<close> is a list of
  8-bit words.
\<close>

type_synonym bytes = "8 word list"

text \<open>\<open>b.decode("iso-8859-1")\<close>: every byte is the code point of the same number.\<close>

definition decode_iso_8859_1 :: "bytes \<Rightarrow> string" where
  "decode_iso_8859_1 b = map (\<lambda>w. char_of (unat w)) b"

text \<open>\<open>s.startswith(sub)\<close> and the substring test \<open>sub in s\<close>.\<close>

fun starts_with :: "string \<Rightarrow> string \<Rightarrow> bool" where
  "starts_with [] s = True"
| "starts_with (x # xs) [] = False"
| "starts_with (x # xs) (y # ys) = (x = y \<and> starts_with xs ys)"

fun py_in :: "string \<Rightarrow> string \<Rightarrow> bool" where
  "py_in sub [] = (sub = [])"
| "py_in sub (c # cs) = (starts_with sub (c # cs) \<or> py_in sub cs)"

text \<open>\<open>s.split(sep)\<close> for a separator of one character.\<close>

fun split_on :: "char \<Rightarrow> string \<Rightarrow> string list" where
  "split_on sep [] = [[]]"
| "split_on sep (c # cs) =
     (if c = sep then [] # split_on sep cs
      else (case split_on sep cs of
              [] \<Rightarrow> [[c]]
            | p # ps \<Rightarrow> (c # p) # ps))"

text \<open>\<open>str(n)\<close> for an integer: decimal digits, with a minus sign below zero.\<close>

definition digit_char :: "nat \<Rightarrow> char" where
  "digit_char d = ''0123456789'' ! d"

fun str_nat :: "nat \<Rightarrow> string" where
  "str_nat n = (if n < 10 then [digit_char n] else str_nat (n div 10) @ [digit_char (n mod 10)])"

declare str_nat.simps [simp del]

definition str_int :: "int \<Rightarrow> string" where
  "str_int i = (if i < 0 then CHR ''-'' # str_nat (nat (- i)) else str_nat (nat i))"

text \<open>\<open>s.lower()\<close> on code points below 256: A-Z and the accented capitals of Latin-1.\<close>

definition lower_char :: "char \<Rightarrow> char" where
  "lower_char c =
     (let n = (of_char c :: nat) in
      if (65 \<le> n \<and> n \<le> 90) \<or> (192 \<le> n \<and> n \<le> 222 \<and> n \<noteq> 215) then char_of (n + 32) else c)"

definition lower :: "string \<Rightarrow> string" where
  "lower s = map lower_char s"

definition tab :: char where
  "tab = char_of (9 :: nat)"

section \<open>Data model\<close>

text \<open>
  Modelled from the spec: \<open>utilities.error_exit\<close> is not in the sources; the errors it
  reports are fatal and abort the run of the tool at once, so a call of it is the
  exception \<open>ErrorExit\<close> with its message. The other exceptions are Python's own.
\<close>

datatype error =
    KeyError string
  | ValueError string
  | ErrorExit string

text \<open>
  Modelled from the spec: \<open>ToolStats\<close> (app.core.task.stats) is not in the sources.
  The record has the size-side counters (non-compilable, plausible, candidate-space size,
  enumerations, generated), the time-side durations (total validation, total build) and
  the timestamps for compilation, validation and the first plausible result; a fresh
  record has every counter at zero and every timestamp unset.
\<close>

record tool_stats =
  non_compilable :: int
  plausible :: int
  space_size :: int
  enumerations :: int
  generated :: int
  total_validation :: int
  total_build :: int
  timestamp_compilation :: "string option"
  timestamp_validation :: "string option"
  timestamp_plausible :: "string option"

definition ToolStats :: tool_stats where
  "ToolStats = \<lparr> non_compilable = 0, plausible = 0, space_size = 0, enumerations = 0,
     generated = 0, total_validation = 0, total_build = 0,
     timestamp_compilation = None, timestamp_validation = None, timestamp_plausible = None \<rparr>"

text \<open>
  Statistics records are objects: \<open>self._stats\<close> holds a reference into a store of
  records, and constructing a record allocates the next address.
\<close>

type_synonym stats_store = "tool_stats list"

definition new_ToolStats :: "stats_store \<Rightarrow> nat \<times> stats_store" where
  "new_ToolStats h = (length h, h @ [ToolStats])"

text \<open>The attributes of an \<open>AbstractTool\<close> instance; \<open>stats\<close> is \<open>_stats\<close>.\<close>

record tool =
  log_instrument_path :: string
  log_output_path :: string
  image_name :: "string option"
  invoke_command :: string
  name :: string
  dir_logs :: string
  dir_output :: string
  dir_expr :: string
  dir_base_expr :: string
  cpu_usage :: int
  dir_inst :: string
  dir_setup :: string
  container_id :: "string option"
  is_instrument_only :: bool
  stats :: nat

text \<open>The module \<open>app.core.values\<close>: the process-wide settings the engine reads and writes.\<close>

record global_values =
  use_container :: bool
  rebuild_all :: bool
  is_purge :: bool
  dir_experiments :: string

type_synonym environ = "(string \<times> string) list"

record image =
  image_id :: string

text \<open>
  What the engine does to the outside, in order: messages of the emitter, calls of the
  container runtime, of the host process execution and of the file abstraction.
\<close>

datatype event =
    Debug string
  | Normal string
  | Information string
  | Warning string
  | Success string
  | StopContainer string
  | StartContainer string
  | ExecCommand string string string environ
  | ExecuteCommand string "environ option" "string option"
  | AppendFile "string option" string string
  | ImageExists string string
  | PullImage string string
  | GetImage string string
  | CopyFileFromContainer string string string
  | Which string

text \<open>
  The container runtime (app.core.container), the host process execution
  (\<open>utilities.execute_command\<close>) and \<open>shutil.which\<close> are not in the sources: what
  they answer is a parameter of the engine. \<open>container.exec_command\<close> gives the exit
  code and, when there is output, the pair of captured streams;
  \<open>utilities.execute_command\<close> gives the exit code; \<open>container.pull_image\<close> gives
  an image or \<open>None\<close>, \<open>container.get_image\<close> an image.
\<close>

record runtime =
  exec_command :: "string \<Rightarrow> string \<Rightarrow> string \<Rightarrow> environ \<Rightarrow> int \<times> (bytes option \<times> bytes option) option"
  execute_command :: "string \<Rightarrow> environ option \<Rightarrow> string option \<Rightarrow> int"
  image_exists :: "string \<Rightarrow> string \<Rightarrow> bool"
  pull_image :: "string \<Rightarrow> string \<Rightarrow> image option"
  get_image :: "string \<Rightarrow> string \<Rightarrow> image"
  which :: "string \<Rightarrow> string option"

text \<open>
  \<open>if self.container_id:\<close> holds when the identifier is a non-empty string; the
  engine is then in container mode, and in local mode otherwise.
\<close>

definition active_container :: "tool \<Rightarrow> string option" where
  "active_container self =
     (case container_id self of
        None \<Rightarrow> None
      | Some c \<Rightarrow> if c = [] then None else Some c)"

section \<open>Process supervisor\<close>

definition process_status :: "tool \<Rightarrow> int \<Rightarrow> event list" where
  "process_status self status =
     (if status \<noteq> 0 then
        [Warning ([tab, tab, tab] @ ''[warning] '' @ name self @ '' exited with an error code ''
                  @ str_int status)]
        @ (case active_container self of
             Some cid \<Rightarrow>
               if status = 137 then [StopContainer cid, StartContainer cid] else []
           | None \<Rightarrow> [])
      else
        [Success ([tab, tab, tab] @ ''[success] '' @ name self @ '' ended successfully'')])"

section \<open>Construction\<close>

text \<open>
  The class attributes of \<open>AbstractTool\<close>, which an instance reads until it assigns its
  own. The class-level \<open>_stats = ToolStats()\<close> is the record at address 0 of the
  initial store.
\<close>

definition AbstractTool :: tool where
  "AbstractTool = \<lparr> log_instrument_path = '''', log_output_path = '''', image_name = Some '''',
     invoke_command = '''', name = '''', dir_logs = '''', dir_output = '''', dir_expr = '''',
     dir_base_expr = '''', cpu_usage = 1, dir_inst = '''', dir_setup = '''',
     container_id = None, is_instrument_only = False, stats = 0 \<rparr>"


definition AbstractTool_init :: "string \<Rightarrow> tool \<times> event list" where
  "AbstractTool_init tool_name =
     (AbstractTool\<lparr> image_name := Some (''cerberus:'' @ lower tool_name) \<rparr>,
      [Debug (''using tool: '' @ tool_name)])"

text \<open>\<open>AbstractAnalyzeTool.__init__\<close> does not call the base initialiser.\<close>

definition AbstractAnalyzeTool_init :: "string \<Rightarrow> tool \<times> event list" where
  "AbstractAnalyzeTool_init tool_name =
     (AbstractTool, [Debug (''using tool: '' @ tool_name)])"

section \<open>Directory layout\<close>

text \<open>
  The descriptor given to \<open>update_dir_info\<close> is a dict of dicts of paths;
  \<open>dir_info[k1][k2]\<close> raises \<open>KeyError\<close> at the first key that is absent.
\<close>

type_synonym dir_descriptor = "string \<Rightarrow> (string \<Rightarrow> string option) option"

definition subscript2 :: "dir_descriptor \<Rightarrow> string \<Rightarrow> string \<Rightarrow> error + string" where
  "subscript2 d k1 k2 =
     (case d k1 of
        None \<Rightarrow> Inl (KeyError k1)
      | Some sub \<Rightarrow> (case sub k2 of None \<Rightarrow> Inl (KeyError k2) | Some p \<Rightarrow> Inr p))"

text \<open>
  The assignments run in order, so an exception leaves the attributes assigned before
  it changed: the result is the outcome together with the engine as it then is.
\<close>

definition update_dir_info :: "global_values \<Rightarrow> dir_descriptor \<Rightarrow> tool \<Rightarrow> (error + unit) \<times> tool" where
  "update_dir_info v dir_info self =
     (case active_container self of
        Some cid \<Rightarrow>
          (case subscript2 dir_info ''container'' ''experiment'' of
             Inl e \<Rightarrow> (Inl e, self)
           | Inr p1 \<Rightarrow>
          (case subscript2 dir_info ''container'' ''logs'' of
             Inl e \<Rightarrow> (Inl e, self\<lparr>dir_expr := p1\<rparr>)
           | Inr p2 \<Rightarrow>
          (case subscript2 dir_info ''container'' ''instrumentation'' of
             Inl e \<Rightarrow> (Inl e, self\<lparr>dir_expr := p1, dir_logs := p2\<rparr>)
           | Inr p3 \<Rightarrow>
          (case subscript2 dir_info ''container'' ''setup'' of
             Inl e \<Rightarrow> (Inl e, self\<lparr>dir_expr := p1, dir_logs := p2, dir_inst := p3\<rparr>)
           | Inr p4 \<Rightarrow>
          (case subscript2 dir_info ''container'' ''artifacts'' of
             Inl e \<Rightarrow>
               (Inl e, self\<lparr>dir_expr := p1, dir_logs := p2, dir_inst := p3, dir_setup := p4\<rparr>)
           | Inr p5 \<Rightarrow>
               (Inr (), self\<lparr>dir_expr := p1, dir_logs := p2, dir_inst := p3, dir_setup := p4,
                              dir_output := p5, dir_base_expr := ''/experiment''\<rparr>))))))
      | None \<Rightarrow>
          (case subscript2 dir_info ''local'' ''experiment'' of
             Inl e \<Rightarrow> (Inl e, self)
           | Inr p1 \<Rightarrow>
          (case subscript2 dir_info ''local'' ''logs'' of
             Inl e \<Rightarrow> (Inl e, self\<lparr>dir_expr := p1\<rparr>)
           | Inr p2 \<Rightarrow>
          (case subscript2 dir_info ''local'' ''instrumentation'' of
             Inl e \<Rightarrow> (Inl e, self\<lparr>dir_expr := p1, dir_logs := p2\<rparr>)
           | Inr p3 \<Rightarrow>
          (case subscript2 dir_info ''local'' ''setup'' of
             Inl e \<Rightarrow> (Inl e, self\<lparr>dir_expr := p1, dir_logs := p2, dir_inst := p3\<rparr>)
           | Inr p4 \<Rightarrow>
          (case subscript2 dir_info ''local'' ''artifacts'' of
             Inl e \<Rightarrow>
               (Inl e, self\<lparr>dir_expr := p1, dir_logs := p2, dir_inst := p3, dir_setup := p4\<rparr>)
           | Inr p5 \<Rightarrow>
               (Inr (), self\<lparr>dir_expr := p1, dir_logs := p2, dir_inst := p3, dir_setup := p4,
                              dir_output := p5, dir_base_expr := dir_experiments v\<rparr>)))))))"

definition update_info ::
  "global_values \<Rightarrow> string option \<Rightarrow> bool \<Rightarrow> dir_descriptor \<Rightarrow> tool \<times> stats_store
     \<Rightarrow> (error + unit) \<times> tool \<times> stats_store" where
  "update_info v cid instrument_only dir_info st =
     (case st of (self, h) \<Rightarrow>
        (case update_dir_info v dir_info
                (self\<lparr>container_id := cid, is_instrument_only := instrument_only\<rparr>) of
           (Inl e, self') \<Rightarrow> (Inl e, self', h)
         | (Inr u, self') \<Rightarrow>
             (case new_ToolStats h of (a, h') \<Rightarrow> (Inr (), self'\<lparr>stats := a\<rparr>, h'))))"

section \<open>Execution environment\<close>

text \<open>\<open>if not dir_path: dir_path = d\<close>, for a path that is \<open>None\<close> or a string.\<close>

definition default_if_not :: "string option \<Rightarrow> string \<Rightarrow> string" where
  "default_if_not dir_path d =
     (case dir_path of None \<Rightarrow> d | Some p \<Rightarrow> if p = [] then d else p)"

text \<open>\<open>if stream: self.append_file(stream.decode("iso-8859-1"), log_file_path)\<close>\<close>

definition append_stream :: "tool \<Rightarrow> bytes option \<Rightarrow> string \<Rightarrow> event list" where
  "append_stream self stream log_file_path =
     (case stream of
        None \<Rightarrow> []
      | Some b \<Rightarrow>
          if b = [] then []
          else [AppendFile (container_id self) (decode_iso_8859_1 b) log_file_path])"

text \<open>
  \<open>run_command(command_str, log_file_path="/dev/null", dir_path=None, env=dict())\<close>
  gives the exit code, and the events it caused.
\<close>

definition run_command ::
  "runtime \<Rightarrow> tool \<Rightarrow> string \<Rightarrow> string \<Rightarrow> string option \<Rightarrow> environ \<Rightarrow> int \<times> event list" where
  "run_command rt self command_str log_file_path dir_path env =
     (case active_container self of
        Some cid \<Rightarrow>
          (let dir = default_if_not dir_path ''/experiment'' in
           case exec_command rt cid command_str dir env of
             (exit_code, output) \<Rightarrow>
               (exit_code,
                [ExecCommand cid command_str dir env]
                @ (case output of
                     None \<Rightarrow> []
                   | Some (stdout, stderr) \<Rightarrow>
                       if \<not> py_in ''/dev/null'' log_file_path then
                         append_stream self stdout log_file_path
                         @ append_stream self stderr log_file_path
                       else [])))
      | None \<Rightarrow>
          (let dir = default_if_not dir_path (dir_expr self);
               command_line = command_str @ '' >> '' @ log_file_path @ '' 2>&1''
           in (execute_command rt command_line (Some env) (Some dir),
               [ExecuteCommand command_line (Some env) (Some dir)])))"

section \<open>Image provisioning\<close>

text \<open>\<open>repo_name, tag_name = parts\<close>: unpacking needs exactly two parts.\<close>

definition unpack2 :: "string list \<Rightarrow> error + string \<times> string" where
  "unpack2 parts =
     (case parts of
        [] \<Rightarrow> Inl (ValueError ''not enough values to unpack (expected 2, got 0)'')
      | a # r \<Rightarrow>
          (case r of
             [] \<Rightarrow> Inl (ValueError ''not enough values to unpack (expected 2, got 1)'')
           | b # r' \<Rightarrow>
               (case r' of
                  [] \<Rightarrow> Inr (a, b)
                | c # r'' \<Rightarrow> Inl (ValueError ''too many values to unpack (expected 2)''))))"

text \<open>The repository and tag of an image reference; the tag defaults to \<open>latest\<close>.\<close>

definition split_image_name :: "string \<Rightarrow> error + string \<times> string" where
  "split_image_name img =
     (if py_in '':'' img then unpack2 (split_on CHR '':'' img) else Inr (img, ''latest''))"

definition check_tool_exists ::
  "runtime \<Rightarrow> global_values \<Rightarrow> tool \<Rightarrow> (error + unit) \<times> global_values \<times> event list" where
  "check_tool_exists rt v self =
     (if use_container v then
        (case image_name self of
           None \<Rightarrow> (Inl (ErrorExit (name self @ '' does not provide a Docker Image'')), v, [])
         | Some img \<Rightarrow>
             (case split_image_name img of
                Inl e \<Rightarrow> (Inl e, v, [])
              | Inr (repo_name, tag_name) \<Rightarrow>
                  if \<not> image_exists rt repo_name tag_name then
                    (case pull_image rt repo_name tag_name of
                       None \<Rightarrow>
                         (Inl (ErrorExit (name self @ '' does not provide a Docker image in Dockerhub'')),
                          v,
                          [ImageExists repo_name tag_name,
                           Warning ''(warning) docker image not found in Docker registry'',
                           PullImage repo_name tag_name])
                     | Some pulled \<Rightarrow>
                         (Inr (), v,
                          [ImageExists repo_name tag_name,
                           Warning ''(warning) docker image not found in Docker registry'',
                           PullImage repo_name tag_name]))
                  else
                    (let img_local = get_image rt repo_name tag_name;
                         possibly_new_image = pull_image rt repo_name tag_name;
                         tr = [ImageExists repo_name tag_name,
                               Information ([tab, tab] @ ''(information) docker image found locally''),
                               GetImage repo_name tag_name,
                               PullImage repo_name tag_name]
                     in case possibly_new_image of
                          None \<Rightarrow> (Inr (), v, tr)
                        | Some new_image \<Rightarrow>
                            if image_id img_local \<noteq> image_id new_image then
                              (Inr (), v\<lparr>rebuild_all := True\<rparr>,
                               tr @ [Information ''(information) docker image is not the same as the one in the repository. Will have to rebuild''])
                            else (Inr (), v, tr))))
      else
        (case which rt (lower (name self)) of
           None \<Rightarrow> (Inl (ErrorExit (name self @ '' not Found'')), v, [Which (lower (name self))])
         | Some local_path \<Rightarrow>
             if local_path = [] then
               (Inl (ErrorExit (name self @ '' not Found'')), v, [Which (lower (name self))])
             else (Inr (), v, [Which (lower (name self))])))"

definition pre_process ::
  "runtime \<Rightarrow> global_values \<Rightarrow> tool \<Rightarrow> (error + unit) \<times> global_values \<times> event list" where
  "pre_process rt v self = check_tool_exists rt v self"

text \<open>
  A run of provisioning checks, one after the other, each with the engine it is for and
  the answers of the container runtime at that moment; a check that fails leaves the
  process-wide settings to the next one as they are.
\<close>

fun check_tools :: "global_values \<Rightarrow> (runtime \<times> tool) list \<Rightarrow> global_values" where
  "check_tools v [] = v"
| "check_tools v ((rt, self) # cs) = check_tools (fst (snd (check_tool_exists rt v self))) cs"

section \<open>Artifact preservation\<close>

text \<open>
  The descriptor given to \<open>save_artifacts\<close> maps \<open>results\<close>, \<open>artifacts\<close> and
  \<open>logs\<close> to host directories.
\<close>

type_synonym host_dirs = "string \<Rightarrow> string option"

definition save_artifacts :: "tool \<Rightarrow> host_dirs \<Rightarrow> (error + unit) \<times> event list" where
  "save_artifacts self dir_info =
     (let tr = [Normal ([tab, tab, tab] @ '' saving artifacts of '' @ name self)] in
      case dir_info ''results'' of
        None \<Rightarrow> (Inl (KeyError ''results''), tr)
      | Some dir_results \<Rightarrow>
      (case dir_info ''artifacts'' of
        None \<Rightarrow> (Inl (KeyError ''artifacts''), tr)
      | Some dir_artifacts \<Rightarrow>
      (case dir_info ''logs'' of
        None \<Rightarrow> (Inl (KeyError ''logs''), tr)
      | Some dir_logs' \<Rightarrow>
      (case active_container self of
         Some cid \<Rightarrow>
           (Inr (),
            tr @ [CopyFileFromContainer cid (dir_output self) dir_results,
                  CopyFileFromContainer cid (dir_logs self) dir_results,
                  CopyFileFromContainer cid (dir_output self) dir_artifacts,
                  CopyFileFromContainer cid (dir_logs self) dir_logs'])
       | None \<Rightarrow>
           (let save_command =
                  (''cp -rf '' @ dir_output self @ ''/* '' @ dir_results @ '';'')
                  @ (if dir_logs self \<noteq> '''' then
                       ''cp -rf '' @ dir_logs self @ ''/* '' @ dir_results @ '';'' else '''')
                  @ (if dir_artifacts \<noteq> '''' then
                       ''cp -rf '' @ dir_output self @ ''/* '' @ dir_artifacts @ '';'' else '''')
                  @ (if dir_logs' \<noteq> '''' then
                       ''cp -rf '' @ dir_logs self @ ''/* '' @ dir_logs' else '''')
            in (Inr (), tr @ [ExecuteCommand save_command None None]))))))"

section \<open>Reading traces and descriptors\<close>

text \<open>What the events append to files, in order: the path and the text of each append.\<close>

fun written :: "event list \<Rightarrow> (string \<times> string) list" where
  "written [] = []"
| "written (AppendFile c content path # es) = (path, content) # written es"
| "written (e # es) = written es"


text \<open>
  The key of the descriptor that matches the engine's mode, the five keys read under it,
  and the descriptors that lack one of them.
\<close>

definition mode_key :: "tool \<Rightarrow> string" where
  "mode_key self = (case active_container self of Some cid \<Rightarrow> ''container'' | None \<Rightarrow> ''local'')"

definition required_keys :: "string list" where
  "required_keys = [''experiment'', ''logs'', ''instrumentation'', ''setup'', ''artifacts'']"

definition missing_required :: "dir_descriptor \<Rightarrow> string \<Rightarrow> bool" where
  "missing_required d m =
     (case d m of None \<Rightarrow> True | Some sub \<Rightarrow> \<exists>k \<in> set required_keys. sub k = None)"

text \<open>
  One \<open>cp\<close> command of the local-mode save command, with the target directory it is for:
  the commands for the results and artifacts targets end in a semicolon, the one for the
  logs target comes last and does not.
\<close>

datatype target = Results | Artifacts | Logs

definition render_copy :: "target \<times> string \<times> string \<Rightarrow> string" where
  "render_copy c =
     (case c of (t, src, dst) \<Rightarrow>
        ''cp -rf '' @ src @ ''/* '' @ dst @ (if t = Logs then '''' else '';''))"

section \<open>Concrete engines, descriptors and runtimes\<close>

text \<open>An engine in container mode (identifier \<open>c1\<close>) and one in local mode.\<close>

definition container_tool :: tool where
  "container_tool = (fst (AbstractTool_init ''Foo''))
     \<lparr> name := ''Foo'', container_id := Some ''c1'', dir_logs := ''/logs'',
       dir_output := ''/output'', dir_expr := ''/experiment/foo'' \<rparr>"

definition local_tool :: tool where
  "local_tool = (fst (AbstractTool_init ''Foo''))
     \<lparr> name := ''Foo'', container_id := None, dir_logs := ''/logs'',
       dir_output := ''/output'', dir_expr := ''/home/exp/foo'' \<rparr>"

definition sample_values :: global_values where
  "sample_values = \<lparr> use_container = True, rebuild_all = False, is_purge = False,
                       dir_experiments = ''/home/exp'' \<rparr>"

definition sample_container_dirs :: "string \<Rightarrow> string option" where
  "sample_container_dirs = map_of [(''experiment'', ''/experiment/foo''), (''logs'', ''/logs''),
        (''instrumentation'', ''/inst''), (''setup'', ''/setup''), (''artifacts'', ''/output'')]"

definition sample_local_dirs :: "string \<Rightarrow> string option" where
  "sample_local_dirs = map_of [(''experiment'', ''/home/exp/foo''), (''logs'', ''/home/logs''),
        (''instrumentation'', ''/home/inst''), (''setup'', ''/home/setup''),
        (''artifacts'', ''/home/output'')]"

definition sample_dir_info :: dir_descriptor where
  "sample_dir_info = map_of [(''container'', sample_container_dirs), (''local'', sample_local_dirs)]"

text \<open>A descriptor with no \<open>local\<close> key, and no \<open>setup\<close> and \<open>artifacts\<close> under \<open>container\<close>.\<close>

definition partial_dir_info :: dir_descriptor where
  "partial_dir_info = map_of
     [(''container'', map_of [(''experiment'', ''/experiment/bar''), (''logs'', ''/logs/bar''),
        (''instrumentation'', ''/inst/bar'')])]"

text \<open>
  A runtime where the image is present and the registry has a newer one, and where a
  command prints on both streams; and a runtime where nothing is found.
\<close>

definition sample_runtime :: runtime where
  "sample_runtime = \<lparr>
     exec_command = (\<lambda>cid cmd dir env. (0, Some (Some [104, 105, 10], Some [255]))),
     execute_command = (\<lambda>cmd env dir. 0),
     image_exists = (\<lambda>repo tag. True),
     pull_image = (\<lambda>repo tag. Some \<lparr> image_id = ''sha256:new'' \<rparr>),
     get_image = (\<lambda>repo tag. \<lparr> image_id = ''sha256:old'' \<rparr>),
     which = (\<lambda>n. None) \<rparr>"

definition offline_runtime :: runtime where
  "offline_runtime = \<lparr>
     exec_command = (\<lambda>cid cmd dir env. (1, None)),
     execute_command = (\<lambda>cmd env dir. 1),
     image_exists = (\<lambda>repo tag. False),
     pull_image = (\<lambda>repo tag. None),
     get_image = (\<lambda>repo tag. \<lparr> image_id = '''' \<rparr>),
     which = (\<lambda>n. None) \<rparr>"

definition empty_targets :: host_dirs where
  "empty_targets = map_of [(''results'', ''''), (''artifacts'', ''''), (''logs'', '''')]"

section \<open>The substring test\<close>

lemma starts_with_iff: "starts_with sub s \<longleftrightarrow> (\<exists>q. s = sub @ q)"
  by (induction sub s rule: starts_with.induct) auto

lemma py_in_suffix: "py_in sub (sub @ q)"
  by (cases "sub @ q") (auto simp: starts_with_iff intro: exI[of _ q])

lemma py_in_append: "py_in sub s \<Longrightarrow> py_in sub (p @ s)"
  by (induction p) auto

lemma py_in_iff: "py_in sub s \<longleftrightarrow> (\<exists>p q. s = p @ sub @ q)"
proof
  assume "py_in sub s"
  then show "\<exists>p q. s = p @ sub @ q"
  proof (induction s)
    case Nil
    then show ?case by simp
  next
    case (Cons c cs)
    show ?case
    proof (cases "starts_with sub (c # cs)")
      case True
      then obtain q where "c # cs = sub @ q"
        by (auto simp: starts_with_iff)
      then have "c # cs = [] @ sub @ q" by simp
      then show ?thesis by blast
    next
      case False
      with Cons obtain p q where "cs = p @ sub @ q" by auto
      then have "c # cs = (c # p) @ sub @ q" by simp
      then show ?thesis by blast
    qed
  qed
next
  assume "\<exists>p q. s = p @ sub @ q"
  then show "py_in sub s"
    by (auto intro: py_in_append py_in_suffix)
qed

lemma str_int_137: "str_int 137 = ''137''"
  by code_simp

section \<open>The concrete engines\<close>

lemma active_container_tool: "active_container container_tool = Some ''c1''"
  by (simp add: active_container_def container_tool_def)

lemma active_local_tool: "active_container local_tool = None"
  by (simp add: active_container_def local_tool_def)

lemma image_name_container_tool: "image_name container_tool = Some ''cerberus:foo''"
  by code_simp

section \<open>Process supervisor: exit statuses\<close>

text \<open>
  C1. For every exit status: status 137 with a container identifier set gives a warning
  that includes the code, then exactly one stop and then exactly one start of that
  container, and nothing else; status 0 gives the success message only; every other
  non-zero status gives the warning only, in either mode; and status 137 with no
  container identifier set gives the warning only.
\<close>

theorem process_status_supervises:
  "(active_container self = Some cid \<longrightarrow>
      (\<exists>m. process_status self 137 = [Warning m, StopContainer cid, StartContainer cid]
           \<and> py_in ''137'' m))
   \<and> (\<exists>m. process_status self 0 = [Success m])
   \<and> (status \<noteq> 0 \<and> status \<noteq> 137 \<longrightarrow>
      (\<exists>m. process_status self status = [Warning m] \<and> py_in (str_int status) m))
   \<and> (active_container self = None \<longrightarrow>
      (\<exists>m. process_status self 137 = [Warning m] \<and> py_in ''137'' m))"
proof -
  define M where "M = (\<lambda>st. [tab, tab, tab] @ ''[warning] '' @ name self
                        @ '' exited with an error code '' @ str_int st)"
  have inM: "py_in (str_int st) (M st)" for st
  proof -
    have "M st = ([tab, tab, tab] @ ''[warning] '' @ name self
                  @ '' exited with an error code '') @ str_int st @ []"
      by (simp add: M_def)
    then show ?thesis by (simp only: py_in_iff) blast
  qed
  have in137: "py_in ''137'' (M 137)"
    using inM [of 137] by (simp only: str_int_137)
  have c1: "process_status self 137 = [Warning (M 137), StopContainer cid, StartContainer cid]"
    if "active_container self = Some cid"
    using that by (simp add: process_status_def M_def)
  have c2: "process_status self 0 = [Success ([tab, tab, tab] @ ''[success] '' @ name self
                                              @ '' ended successfully'')]"
    by (simp add: process_status_def)
  have c3: "process_status self status = [Warning (M status)]"
    if "status \<noteq> 0" "status \<noteq> 137"
    using that by (simp add: process_status_def M_def split: option.splits)
  have c4: "process_status self 137 = [Warning (M 137)]" if "active_container self = None"
    using that by (simp add: process_status_def M_def)
  show ?thesis
    using c1 c2 c3 c4 inM in137 by blast
qed

theorem process_status_supervises_witness:
  "active_container container_tool = Some ''c1''
   \<and> (\<exists>m. process_status container_tool 137
            = [Warning m, StopContainer ''c1'', StartContainer ''c1''] \<and> py_in ''137'' m)
   \<and> (1::int) \<noteq> 0 \<and> (1::int) \<noteq> 137
   \<and> (\<exists>m. process_status container_tool 1 = [Warning m] \<and> py_in ''1'' m)"
proof -
  have s1: "str_int 1 = ''1''" by code_simp
  show ?thesis
    using active_container_tool process_status_supervises [of container_tool "''c1''" 1]
    by (simp only: s1) simp
qed

section \<open>Directory layout: resolving the descriptor\<close>


lemma update_dir_info_raises:
  assumes "missing_required dir_info (mode_key self)"
  shows "\<exists>k self'. update_dir_info v dir_info self = (Inl (KeyError k), self')
           \<and> self' = self\<lparr>dir_expr := dir_expr self', dir_logs := dir_logs self',
                           dir_inst := dir_inst self', dir_setup := dir_setup self'\<rparr>"
proof (cases "active_container self")
  case None
  then show ?thesis
    using assms
    by (auto simp: update_dir_info_def subscript2_def mode_key_def missing_required_def
                   required_keys_def split: option.splits)
next
  case (Some cid)
  then show ?thesis
    using assms
    by (auto simp: update_dir_info_def subscript2_def mode_key_def missing_required_def
                   required_keys_def split: option.splits)
qed

text \<open>
  C2. For every descriptor whose \<open>container\<close> and \<open>local\<close> keys both hold all five
  paths, \<open>update_dir_info\<close> returns and sets the five working directories (experiment,
  logs, instrumentation, setup, artifacts/output) to exactly the paths under the key of
  the current mode: \<open>container\<close> when a container identifier is set, \<open>local\<close>
  otherwise. The base experiment path becomes \<open>/experiment\<close> in container mode and
  the configured host experiment directory in local mode; no other attribute changes.
\<close>

theorem update_dir_info_resolves:
  assumes "dir_info ''container'' = Some c" and "dir_info ''local'' = Some l"
    and "c ''experiment'' = Some ce" and "c ''logs'' = Some cl"
    and "c ''instrumentation'' = Some ci" and "c ''setup'' = Some cs"
    and "c ''artifacts'' = Some ca"
    and "l ''experiment'' = Some le" and "l ''logs'' = Some ll"
    and "l ''instrumentation'' = Some li" and "l ''setup'' = Some ls"
    and "l ''artifacts'' = Some la"
  shows "(active_container self \<noteq> None \<longrightarrow>
           update_dir_info v dir_info self =
             (Inr (), self\<lparr>dir_expr := ce, dir_logs := cl, dir_inst := ci, dir_setup := cs,
                            dir_output := ca, dir_base_expr := ''/experiment''\<rparr>))
       \<and> (active_container self = None \<longrightarrow>
           update_dir_info v dir_info self =
             (Inr (), self\<lparr>dir_expr := le, dir_logs := ll, dir_inst := li, dir_setup := ls,
                            dir_output := la, dir_base_expr := dir_experiments v\<rparr>))"
  using assms by (auto simp: update_dir_info_def subscript2_def)

theorem update_dir_info_resolves_witness:
  "sample_dir_info ''container'' = Some sample_container_dirs
   \<and> sample_dir_info ''local'' = Some sample_local_dirs
   \<and> sample_container_dirs ''experiment'' = Some ''/experiment/foo''
   \<and> sample_container_dirs ''logs'' = Some ''/logs''
   \<and> sample_container_dirs ''instrumentation'' = Some ''/inst''
   \<and> sample_container_dirs ''setup'' = Some ''/setup''
   \<and> sample_container_dirs ''artifacts'' = Some ''/output''
   \<and> sample_local_dirs ''experiment'' = Some ''/home/exp/foo''
   \<and> sample_local_dirs ''logs'' = Some ''/home/logs''
   \<and> sample_local_dirs ''instrumentation'' = Some ''/home/inst''
   \<and> sample_local_dirs ''setup'' = Some ''/home/setup''
   \<and> sample_local_dirs ''artifacts'' = Some ''/home/output''
   \<and> active_container container_tool \<noteq> None
   \<and> update_dir_info sample_values sample_dir_info container_tool =
        (Inr (), container_tool\<lparr>dir_expr := ''/experiment/foo'', dir_logs := ''/logs'',
           dir_inst := ''/inst'', dir_setup := ''/setup'', dir_output := ''/output'',
           dir_base_expr := ''/experiment''\<rparr>)
   \<and> active_container local_tool = None
   \<and> update_dir_info sample_values sample_dir_info local_tool =
        (Inr (), local_tool\<lparr>dir_expr := ''/home/exp/foo'', dir_logs := ''/home/logs'',
           dir_inst := ''/home/inst'', dir_setup := ''/home/setup'', dir_output := ''/home/output'',
           dir_base_expr := ''/home/exp''\<rparr>)"
proof -
  have d: "sample_dir_info ''container'' = Some sample_container_dirs"
    "sample_dir_info ''local'' = Some sample_local_dirs"
    by (simp_all add: sample_dir_info_def)
  have c: "sample_container_dirs ''experiment'' = Some ''/experiment/foo''"
    "sample_container_dirs ''logs'' = Some ''/logs''"
    "sample_container_dirs ''instrumentation'' = Some ''/inst''"
    "sample_container_dirs ''setup'' = Some ''/setup''"
    "sample_container_dirs ''artifacts'' = Some ''/output''"
    by (simp_all add: sample_container_dirs_def)
  have l: "sample_local_dirs ''experiment'' = Some ''/home/exp/foo''"
    "sample_local_dirs ''logs'' = Some ''/home/logs''"
    "sample_local_dirs ''instrumentation'' = Some ''/home/inst''"
    "sample_local_dirs ''setup'' = Some ''/home/setup''"
    "sample_local_dirs ''artifacts'' = Some ''/home/output''"
    by (simp_all add: sample_local_dirs_def)
  have e: "dir_experiments sample_values = ''/home/exp''"
    by (simp add: sample_values_def)
  note t1 = update_dir_info_resolves [OF d c l, of container_tool sample_values]
  note t2 = update_dir_info_resolves [OF d c l, of local_tool sample_values]
  have a1: "active_container container_tool \<noteq> None"
    using active_container_tool by simp
  show ?thesis
    using d c l a1 active_local_tool t1 t2 e by simp
qed

text \<open>
  C8. For every descriptor that lacks a required key for the active mode (the mode's
  key itself, or one of the five keys under it), \<open>update_dir_info\<close> fails at once: it
  raises the \<open>KeyError\<close> of the first absent key instead of returning. No path is
  defaulted: each working directory of the engine is afterwards either what it was or the
  path the descriptor gives for it, the output directory and the base path are untouched,
  and when the mode's key itself is absent nothing is changed at all.
\<close>

theorem update_dir_info_missing_key:
  assumes "missing_required dir_info (mode_key self)"
  shows "\<exists>k self'. update_dir_info v dir_info self = (Inl (KeyError k), self')
           \<and> (k = mode_key self \<or> k \<in> set required_keys)
           \<and> self' = self\<lparr>dir_expr := dir_expr self', dir_logs := dir_logs self',
                           dir_inst := dir_inst self', dir_setup := dir_setup self'\<rparr>
           \<and> (dir_info (mode_key self) = None \<longrightarrow> self' = self)
           \<and> (\<forall>sub. dir_info (mode_key self) = Some sub \<longrightarrow>
                 sub k = None
                 \<and> (dir_expr self' = dir_expr self \<or> sub ''experiment'' = Some (dir_expr self'))
                 \<and> (dir_logs self' = dir_logs self \<or> sub ''logs'' = Some (dir_logs self'))
                 \<and> (dir_inst self' = dir_inst self \<or> sub ''instrumentation'' = Some (dir_inst self'))
                 \<and> (dir_setup self' = dir_setup self \<or> sub ''setup'' = Some (dir_setup self')))"
proof (cases "active_container self")
  case None
  then show ?thesis
    using assms
    by (auto simp: update_dir_info_def subscript2_def mode_key_def missing_required_def
                   required_keys_def split: option.splits)
next
  case (Some cid)
  then show ?thesis
    using assms
    by (auto simp: update_dir_info_def subscript2_def mode_key_def missing_required_def
                   required_keys_def split: option.splits)
qed

theorem update_dir_info_missing_key_witness:
  "missing_required partial_dir_info (mode_key container_tool)
   \<and> update_dir_info sample_values partial_dir_info container_tool
       = (Inl (KeyError ''setup''),
          container_tool\<lparr>dir_expr := ''/experiment/bar'', dir_logs := ''/logs/bar'',
                          dir_inst := ''/inst/bar''\<rparr>)
   \<and> missing_required partial_dir_info (mode_key local_tool)
   \<and> update_dir_info sample_values partial_dir_info local_tool
       = (Inl (KeyError ''local''), local_tool)"
proof -
  have m: "mode_key container_tool = ''container''" "mode_key local_tool = ''local''"
    using active_container_tool active_local_tool by (simp_all add: mode_key_def)
  have a: "missing_required partial_dir_info (mode_key container_tool)"
    by (simp add: m missing_required_def partial_dir_info_def required_keys_def)
  have b: "missing_required partial_dir_info (mode_key local_tool)"
    by (simp add: m missing_required_def partial_dir_info_def)
  have c: "update_dir_info sample_values partial_dir_info container_tool
       = (Inl (KeyError ''setup''),
          container_tool\<lparr>dir_expr := ''/experiment/bar'', dir_logs := ''/logs/bar'',
                          dir_inst := ''/inst/bar''\<rparr>)"
    using update_dir_info_missing_key [OF a, of sample_values] active_container_tool
    by (simp add: update_dir_info_def subscript2_def partial_dir_info_def)
  have d: "update_dir_info sample_values partial_dir_info local_tool
       = (Inl (KeyError ''local''), local_tool)"
    using active_local_tool
    by (simp add: update_dir_info_def subscript2_def partial_dir_info_def)
  show ?thesis using a b c d by blast
qed

section \<open>Statistics: the record of a run\<close>

text \<open>
  Whatever the outcome of \<open>update_info\<close>, the records already in the store stay as
  they were; and when \<open>update_dir_info\<close> raises, no record is constructed and the
  engine keeps the reference it had.
\<close>

lemma update_info_store_prefix:
  "update_info v cid instrument_only dir_info (self, h) = (r, self', h') \<Longrightarrow>
     take (length h) h' = h"
  by (auto simp: update_info_def new_ToolStats_def split: prod.splits sum.splits)

lemma update_info_raises:
  assumes "missing_required dir_info (mode_key (self\<lparr>container_id := cid\<rparr>))"
  shows "\<exists>k self'. update_info v cid instrument_only dir_info (self, h)
                      = (Inl (KeyError k), self', h) \<and> stats self' = stats self"
proof -
  let ?s = "self\<lparr>container_id := cid, is_instrument_only := instrument_only\<rparr>"
  have "mode_key ?s = mode_key (self\<lparr>container_id := cid\<rparr>)"
    by (simp add: mode_key_def active_container_def)
  with assms have m: "missing_required dir_info (mode_key ?s)" by simp
  obtain k s' where u: "update_dir_info v dir_info ?s = (Inl (KeyError k), s')"
    and f: "s' = ?s\<lparr>dir_expr := dir_expr s', dir_logs := dir_logs s',
                      dir_inst := dir_inst s', dir_setup := dir_setup s'\<rparr>"
    using update_dir_info_raises [OF m, of v] by blast
  have "stats s' = stats ?s" by (subst f) simp
  then have "stats s' = stats self" by simp
  moreover have "update_info v cid instrument_only dir_info (self, h) = (Inl (KeyError k), s', h)"
    using u by (simp add: update_info_def)
  ultimately show ?thesis by blast
qed



section \<open>Execution environment: running a command\<close>




text \<open>
  C5. For every call of \<open>run_command\<close> in local mode, the one thing the engine does is
  to execute, on the host, the given command extended with \<open>>> log_file_path 2>&1\<close>:
  both streams are redirected into the log file with the appending operator, so the host
  shell appends to what the file holds. The call returns the exit code of that execution
  and nothing else, the working directory is the resolved experiment directory when none
  is given, and two calls give two such executions, one after the other.
\<close>

theorem run_command_local_redirects:
  assumes "active_container self = None"
  shows "run_command rt self command_str log_file_path dir_path env
           = (execute_command rt (command_str @ '' >> '' @ log_file_path @ '' 2>&1'') (Some env)
                (Some (default_if_not dir_path (dir_expr self))),
              [ExecuteCommand (command_str @ '' >> '' @ log_file_path @ '' 2>&1'') (Some env)
                (Some (default_if_not dir_path (dir_expr self)))])
       \<and> default_if_not None (dir_expr self) = dir_expr self
       \<and> snd (run_command rt self command_str log_file_path dir_path env)
           @ snd (run_command rt' self command_str log_file_path dir_path env)
           = [ExecuteCommand (command_str @ '' >> '' @ log_file_path @ '' 2>&1'') (Some env)
                (Some (default_if_not dir_path (dir_expr self))),
              ExecuteCommand (command_str @ '' >> '' @ log_file_path @ '' 2>&1'') (Some env)
                (Some (default_if_not dir_path (dir_expr self)))]"
  using assms by (simp add: run_command_def default_if_not_def Let_def)

theorem run_command_local_redirects_witness:
  "active_container local_tool = None
   \<and> run_command sample_runtime local_tool ''echo hi'' ''/tmp/out.log'' None []
       = (0, [ExecuteCommand ''echo hi >> /tmp/out.log 2>&1'' (Some []) (Some ''/home/exp/foo'')])"
  using active_local_tool
    run_command_local_redirects [OF active_local_tool, of sample_runtime "''echo hi''"
      "''/tmp/out.log''" None "[]" sample_runtime]
  by (simp add: sample_runtime_def local_tool_def default_if_not_def)




text \<open>
  C10. In container mode the discard test of \<open>run_command\<close> is a substring test: a
  call with a log file path that contains \<open>/dev/null\<close> anywhere (such as
  \<open>/tmp/dev/null-backup.log\<close>) does exactly what the call with \<open>/dev/null\<close> itself
  does, so the captured streams are dropped and nothing is appended; and whenever
  something is appended, the log file path does not contain \<open>/dev/null\<close>.
\<close>

theorem run_command_discard_substring:
  assumes "active_container self = Some cid"
  shows "run_command rt self command_str (p @ ''/dev/null'' @ q) dir_path env
           = run_command rt self command_str ''/dev/null'' dir_path env
       \<and> written (snd (run_command rt self command_str (p @ ''/dev/null'' @ q) dir_path env)) = []
       \<and> (written (snd (run_command rt self command_str log_file_path dir_path env)) \<noteq> []
            \<longrightarrow> \<not> (\<exists>p q. log_file_path = p @ ''/dev/null'' @ q))"
proof -
  have i: "py_in ''/dev/null'' (p @ ''/dev/null'' @ q)"
    by (simp only: py_in_iff) blast
  have nul: "py_in ''/dev/null'' ''/dev/null''" by simp
  have r: "run_command rt self command_str l dir_path env
           = (fst (exec_command rt cid command_str (default_if_not dir_path ''/experiment'') env),
              [ExecCommand cid command_str (default_if_not dir_path ''/experiment'') env])"
    if "py_in ''/dev/null'' l" for l
    using assms that by (simp add: run_command_def Let_def split: prod.splits option.splits)
  have a: "run_command rt self command_str (p @ ''/dev/null'' @ q) dir_path env
           = run_command rt self command_str ''/dev/null'' dir_path env"
    using r [OF i] r [OF nul] by simp
  have w0: "written (snd (run_command rt self command_str l dir_path env)) = []"
    if "py_in ''/dev/null'' l" for l
    using r [OF that] by simp
  have b: "written (snd (run_command rt self command_str (p @ ''/dev/null'' @ q) dir_path env)) = []"
    using w0 [OF i] .
  have c: "\<not> (\<exists>p q. log_file_path = p @ ''/dev/null'' @ q)"
    if "written (snd (run_command rt self command_str log_file_path dir_path env)) \<noteq> []"
    using that w0 [of log_file_path] by (auto simp only: py_in_iff)
  show ?thesis using a b c by blast
qed

theorem run_command_discard_substring_witness:
  "active_container container_tool = Some ''c1''
   \<and> run_command sample_runtime container_tool ''ls'' ''/tmp/dev/null-backup.log'' None []
       = (0, [ExecCommand ''c1'' ''ls'' ''/experiment'' []])
   \<and> written (snd (run_command sample_runtime container_tool ''ls'' ''/logs/out.log'' None [])) \<noteq> []
   \<and> \<not> (\<exists>p q. ''/logs/out.log'' = p @ ''/dev/null'' @ q)"
proof -
  note t = run_command_discard_substring [OF active_container_tool, of sample_runtime "''ls''"
      "''/tmp''" "''-backup.log''" None "[]" "''/logs/out.log''"]
  have a: "run_command sample_runtime container_tool ''ls'' ''/dev/null'' None []
       = (0, [ExecCommand ''c1'' ''ls'' ''/experiment'' []])"
    using active_container_tool
    by (simp add: run_command_def sample_runtime_def default_if_not_def)
  have w: "written (snd (run_command sample_runtime container_tool ''ls'' ''/logs/out.log'' None [])) \<noteq> []"
    using active_container_tool
    by (simp add: run_command_def sample_runtime_def default_if_not_def append_stream_def)
  have "run_command sample_runtime container_tool ''ls'' ''/tmp/dev/null-backup.log'' None []
       = (0, [ExecCommand ''c1'' ''ls'' ''/experiment'' []])"
    using t a by simp
  then show ?thesis using active_container_tool w t by blast
qed

section \<open>Image provisioning: the rebuild flag\<close>

lemma check_tool_exists_values:
  "fst (snd (check_tool_exists rt v self)) = v
   \<or> fst (snd (check_tool_exists rt v self)) = v\<lparr>rebuild_all := True\<rparr>"
  by (simp add: check_tool_exists_def Let_def split: option.splits sum.splits prod.splits)

lemma check_tool_exists_keeps_flag:
  "rebuild_all v \<Longrightarrow> rebuild_all (fst (snd (check_tool_exists rt v self)))"
  using check_tool_exists_values [of rt v self] by auto

lemma check_tools_keeps_flag:
  "rebuild_all v \<Longrightarrow> rebuild_all (check_tools v cs)"
proof (induction cs arbitrary: v)
  case Nil
  then show ?case by simp
next
  case (Cons c cs)
  obtain rt self where c: "c = (rt, self)" by (cases c)
  have "rebuild_all (fst (snd (check_tool_exists rt v self)))"
    using Cons.prems by (rule check_tool_exists_keeps_flag)
  then show ?case using Cons.IH c by simp
qed

lemma split_cerberus_foo: "split_image_name ''cerberus:foo'' = Inr (''cerberus'', ''foo'')"
  by (simp add: split_image_name_def unpack2_def)

text \<open>
  C3. In a provisioning check where the image exists locally: when the pull gives an
  image whose identity differs from the local one, the check succeeds and
  \<open>rebuild_all\<close> is set to true; when the pull gives nothing, the check succeeds and the
  process-wide settings are unchanged. No provisioning check, whatever its outcome, sets
  the flag to false: once true it is true after the check, and after any run of further
  checks.
\<close>

theorem check_tool_exists_rebuild_flag:
  "(use_container v \<and> image_name self = Some img \<and> split_image_name img = Inr (repo, tag)
      \<and> image_exists rt repo tag \<longrightarrow>
        (pull_image rt repo tag = Some new
           \<and> image_id (get_image rt repo tag) \<noteq> image_id new \<longrightarrow>
             fst (check_tool_exists rt v self) = Inr ()
             \<and> fst (snd (check_tool_exists rt v self)) = v\<lparr>rebuild_all := True\<rparr>
             \<and> rebuild_all (fst (snd (check_tool_exists rt v self))))
        \<and> (pull_image rt repo tag = None \<longrightarrow>
             fst (check_tool_exists rt v self) = Inr ()
             \<and> fst (snd (check_tool_exists rt v self)) = v))
   \<and> (rebuild_all v' \<longrightarrow> rebuild_all (fst (snd (check_tool_exists rt' v' self'))))
   \<and> (rebuild_all v' \<longrightarrow> rebuild_all (check_tools v' cs))"
proof -
  have a: "fst (check_tool_exists rt v self) = Inr ()
             \<and> fst (snd (check_tool_exists rt v self)) = v\<lparr>rebuild_all := True\<rparr>
             \<and> rebuild_all (fst (snd (check_tool_exists rt v self)))"
    if "use_container v" "image_name self = Some img" "split_image_name img = Inr (repo, tag)"
       "image_exists rt repo tag" "pull_image rt repo tag = Some new"
       "image_id (get_image rt repo tag) \<noteq> image_id new"
    using that by (simp add: check_tool_exists_def Let_def)
  have b: "fst (check_tool_exists rt v self) = Inr ()
             \<and> fst (snd (check_tool_exists rt v self)) = v"
    if "use_container v" "image_name self = Some img" "split_image_name img = Inr (repo, tag)"
       "image_exists rt repo tag" "pull_image rt repo tag = None"
    using that by (simp add: check_tool_exists_def Let_def)
  show ?thesis
    using a b check_tool_exists_keeps_flag [of v' rt' self'] check_tools_keeps_flag [of v' cs]
    by blast
qed

theorem check_tool_exists_rebuild_flag_witness:
  "use_container sample_values \<and> image_name container_tool = Some ''cerberus:foo''
   \<and> split_image_name ''cerberus:foo'' = Inr (''cerberus'', ''foo'')
   \<and> image_exists sample_runtime ''cerberus'' ''foo''
   \<and> pull_image sample_runtime ''cerberus'' ''foo'' = Some \<lparr> image_id = ''sha256:new'' \<rparr>
   \<and> image_id (get_image sample_runtime ''cerberus'' ''foo'') \<noteq> ''sha256:new''
   \<and> \<not> rebuild_all sample_values
   \<and> fst (check_tool_exists sample_runtime sample_values container_tool) = Inr ()
   \<and> rebuild_all (fst (snd (check_tool_exists sample_runtime sample_values container_tool)))
   \<and> rebuild_all (check_tools sample_values
        [(sample_runtime, container_tool), (offline_runtime, container_tool),
         (offline_runtime, local_tool)])"
proof -
  let ?v1 = "fst (snd (check_tool_exists sample_runtime sample_values container_tool))"
  have h: "use_container sample_values" "\<not> rebuild_all sample_values"
    by (simp_all add: sample_values_def)
  have r: "image_exists sample_runtime ''cerberus'' ''foo''"
    "pull_image sample_runtime ''cerberus'' ''foo'' = Some \<lparr> image_id = ''sha256:new'' \<rparr>"
    "image_id (get_image sample_runtime ''cerberus'' ''foo'') \<noteq> ''sha256:new''"
    by (simp_all add: sample_runtime_def)
  note t = check_tool_exists_rebuild_flag [of sample_values container_tool "''cerberus:foo''"
      "''cerberus''" "''foo''" sample_runtime "\<lparr> image_id = ''sha256:new'' \<rparr>"
      ?v1 offline_runtime container_tool "[(offline_runtime, container_tool), (offline_runtime, local_tool)]"]
  have a: "fst (check_tool_exists sample_runtime sample_values container_tool) = Inr ()"
    "rebuild_all ?v1"
    using t h r image_name_container_tool split_cerberus_foo by simp_all
  have "rebuild_all (check_tools ?v1 [(offline_runtime, container_tool), (offline_runtime, local_tool)])"
    using t a by blast
  then have c: "rebuild_all (check_tools sample_values
        [(sample_runtime, container_tool), (offline_runtime, container_tool),
         (offline_runtime, local_tool)])"
    by simp
  show ?thesis
    using h r a c image_name_container_tool split_cerberus_foo by blast
qed

text \<open>
  With \<open>use_container\<close> set, an engine whose image reference is \<open>None\<close> fails with
  the fatal error that it provides no image, before any call of the container runtime.
\<close>

lemma check_tool_exists_no_image:
  "use_container v \<Longrightarrow> image_name self = None \<Longrightarrow>
     check_tool_exists rt v self
       = (Inl (ErrorExit (name self @ '' does not provide a Docker Image'')), v, [])"
  by (simp add: check_tool_exists_def)

text \<open>
  C4. An analyze-tool engine constructed without setting an image reference does not
  have the reference \<open>None\<close>: \<open>AbstractAnalyzeTool.__init__\<close> leaves the class
  attribute, the empty string, in place. Its provisioning check therefore passes the test
  for a missing image and asks the container runtime for the image with the empty
  repository name and the tag \<open>latest\<close>: where nothing is found it fails only after the
  lookup and the pull, with the error of a failed pull, and where the runtime answers it
  succeeds.
\<close>

theorem analyze_tool_without_image_is_looked_up:
  "image_name (fst (AbstractAnalyzeTool_init ''infer'')) = Some ''''
   \<and> check_tool_exists offline_runtime sample_values (fst (AbstractAnalyzeTool_init ''infer''))
       = (Inl (ErrorExit '' does not provide a Docker image in Dockerhub''), sample_values,
          [ImageExists '''' ''latest'',
           Warning ''(warning) docker image not found in Docker registry'',
           PullImage '''' ''latest''])
   \<and> check_tool_exists sample_runtime sample_values (fst (AbstractAnalyzeTool_init ''infer''))
       = (Inr (), sample_values\<lparr>rebuild_all := True\<rparr>,
          [ImageExists '''' ''latest'',
           Information ([tab, tab] @ ''(information) docker image found locally''),
           GetImage '''' ''latest'', PullImage '''' ''latest'',
           Information ''(information) docker image is not the same as the one in the repository. Will have to rebuild''])"
  by (simp add: AbstractAnalyzeTool_init_def AbstractTool_def check_tool_exists_def
                sample_values_def offline_runtime_def sample_runtime_def split_image_name_def Let_def)

section \<open>Artifact preservation: the local copies\<close>

text \<open>
  The command that \<open>save_artifacts\<close> builds in local mode, as the list of its
  \<open>cp\<close> commands: the first is there whatever the arguments are, each of the others
  under its own test.
\<close>

lemma save_artifacts_local_command:
  assumes "active_container self = None"
    and "dir_info ''results'' = Some r" and "dir_info ''artifacts'' = Some a"
    and "dir_info ''logs'' = Some l"
  shows "save_artifacts self dir_info =
           (Inr (),
            [Normal ([tab, tab, tab] @ '' saving artifacts of '' @ name self),
             ExecuteCommand
               (concat (map render_copy
                  ([(Results, dir_output self, r)]
                   @ (if dir_logs self = [] then [] else [(Results, dir_logs self, r)])
                   @ (if a = [] then [] else [(Artifacts, dir_output self, a)])
                   @ (if l = [] then [] else [(Logs, dir_logs self, l)]))))
               None None])"
  using assms by (simp add: save_artifacts_def render_copy_def Let_def)

text \<open>
  C9. In local mode the copies for the artifacts target and for the logs target are
  left out when their argument is empty, but the copy of the output directory into the
  results target has no such test. With all three target arguments empty the command
  that is executed still holds the two copies for the results target, each a \<open>cp\<close>
  with no destination; it is not the command with no copy in it.
\<close>

theorem save_artifacts_empty_results_not_skipped:
  "active_container local_tool = None
   \<and> empty_targets ''results'' = Some ''''
   \<and> save_artifacts local_tool empty_targets =
     (Inr (),
      [Normal ([tab, tab, tab] @ '' saving artifacts of Foo''),
       ExecuteCommand ''cp -rf /output/* ;cp -rf /logs/* ;'' None None])
   \<and> ''cp -rf /output/* ;cp -rf /logs/* ;''
       = concat (map render_copy [(Results, ''/output'', ''''), (Results, ''/logs'', '''')])
   \<and> ''cp -rf /output/* ;cp -rf /logs/* ;'' \<noteq> concat (map render_copy [])"
  using active_local_tool
  by (simp add: save_artifacts_def empty_targets_def local_tool_def render_copy_def Let_def)

end
